theory Spec2Isabelle
  imports Main "HOL-Library.Word"
begin

section \<open>Python values\<close>

text \<open>
  The values that flow through \<^verbatim>\<open>examples/python/example.py\<close>: the arguments of
  \<^verbatim>\<open>ask_ai\<close>, the entries of its payload dictionary and the parsed JSON body of
  the server's answer. A Python \<^verbatim>\<open>int\<close> is unbounded. A Python \<^verbatim>\<open>float\<close> is an
  IEEE-754 double and is represented by its 64 bits: the program never computes with a
  float, it only stores one, passes it on and tests it for truth. A \<^verbatim>\<open>dict\<close> with
  string keys is the list of its items in insertion order.
\<close>

datatype pyval =
    PNone
  | PBool bool
  | PInt int
  | PFloat "64 word"
  | PStr string
  | PList "pyval list"
  | PDict "(string \<times> pyval) list"

text \<open>
  Python's truth test, as \<^verbatim>\<open>if data.get('error'):\<close> applies it. A float is false
  exactly when it is \<^verbatim>\<open>+0.0\<close> or \<^verbatim>\<open>-0.0\<close>, that is when the 63 bits below the
  sign bit are all zero.
\<close>

fun truthy :: "pyval \<Rightarrow> bool" where
  "truthy PNone = False"
| "truthy (PBool b) = b"
| "truthy (PInt i) = (i \<noteq> 0)"
| "truthy (PFloat w) = (take_bit 63 w \<noteq> 0)"
| "truthy (PStr s) = (s \<noteq> [])"
| "truthy (PList xs) = (xs \<noteq> [])"
| "truthy (PDict d) = (d \<noteq> [])"

text \<open>\<^verbatim>\<open>type(v).__name__\<close>, which Python prints in an \<^verbatim>\<open>AttributeError\<close>.\<close>

fun type_name :: "pyval \<Rightarrow> string" where
  "type_name PNone = ''NoneType''"
| "type_name (PBool b) = ''bool''"
| "type_name (PInt i) = ''int''"
| "type_name (PFloat w) = ''float''"
| "type_name (PStr s) = ''str''"
| "type_name (PList xs) = ''list''"
| "type_name (PDict d) = ''dict''"

text \<open>
  An optional argument: \<^verbatim>\<open>None\<close> when the caller leaves it out, the value otherwise.
\<close>

fun optional :: "('a \<Rightarrow> pyval) \<Rightarrow> 'a option \<Rightarrow> pyval" where
  "optional f None = PNone"
| "optional f (Some x) = f x"

text \<open>\<^verbatim>\<open>str(n)\<close> for an integer, used where an f-string formats the status code.\<close>

definition digit :: "nat \<Rightarrow> char" where
  "digit n = ''0123456789'' ! (n mod 10)"

fun str_nat :: "nat \<Rightarrow> string" where
  "str_nat n = (if n < 10 then [digit n] else str_nat (n div 10) @ [digit n])"

declare str_nat.simps [simp del]

definition str_int :: "int \<Rightarrow> string" where
  "str_int i = (if i < 0 then CHR ''-'' # str_nat (nat (- i)) else str_nat (nat i))"

section \<open>Exceptions\<close>

text \<open>
  The exceptions \<^verbatim>\<open>ask_ai\<close> can meet. The only things the program asks of an
  exception are whether it is an instance of \<^verbatim>\<open>requests.exceptions.RequestException\<close>
  (its \<^verbatim>\<open>except\<close> clauses), its \<^verbatim>\<open>str\<close> (the f-string of \<^verbatim>\<open>ask_ai\<close>) and the name
  of its class (the print of example 7).
  \<^item> \<open>RequestError cls msg\<close>: an instance of the class \<open>cls\<close> of
    \<^verbatim>\<open>requests.exceptions\<close>, every one of which derives from
    \<^verbatim>\<open>RequestException\<close> (\<^verbatim>\<open>ConnectionError\<close>, \<^verbatim>\<open>Timeout\<close>, \<^verbatim>\<open>HTTPError\<close>,
    \<^verbatim>\<open>JSONDecodeError\<close>, ...), with \<open>msg\<close> its \<^verbatim>\<open>str\<close>;
  \<^item> \<open>Exception v\<close>: a plain \<^verbatim>\<open>Exception(v)\<close>, as \<^verbatim>\<open>ask_ai\<close> raises it;
  \<^item> \<open>KeyError k\<close>: a dictionary lookup \<^verbatim>\<open>d[k]\<close> of a missing key;
  \<^item> \<open>AttributeError msg\<close>: a method looked up on an object that lacks it;
  \<^item> \<open>OtherError cls msg\<close>: an instance of any other class, outside the
    \<^verbatim>\<open>RequestException\<close> hierarchy.
\<close>

datatype pyexc =
    RequestError string string
  | Exception pyval
  | KeyError pyval
  | AttributeError string
  | OtherError string string

section \<open>Dictionaries\<close>

text \<open>\<^verbatim>\<open>d.get(k)\<close>: the value, or \<^verbatim>\<open>None\<close> for a missing key.\<close>

definition dict_get :: "(string \<times> pyval) list \<Rightarrow> string \<Rightarrow> pyval" where
  "dict_get d k = (case map_of d k of None \<Rightarrow> PNone | Some v \<Rightarrow> v)"

text \<open>\<^verbatim>\<open>d[k]\<close>: the value, or a \<^verbatim>\<open>KeyError\<close> carrying the missing key.\<close>

definition dict_getitem :: "(string \<times> pyval) list \<Rightarrow> string \<Rightarrow> pyexc + pyval" where
  "dict_getitem d k = (case map_of d k of None \<Rightarrow> Inl (KeyError (PStr k)) | Some v \<Rightarrow> Inr v)"

section \<open>The requests library, as far as the script uses it\<close>

text \<open>
  The keyword arguments of \<^verbatim>\<open>requests.post\<close>. \<open>headers\<close> is \<open>None\<close> when the call
  passes no \<^verbatim>\<open>headers=\<close>; \<open>json\<close> is the payload dictionary; \<open>timeout\<close> is in
  seconds.
\<close>

record request =
  url :: string
  headers :: "(string \<times> string) list option"
  json :: "(string \<times> pyval) list"
  timeout :: int

text \<open>
  The body of an answer, by what the JSON decoder behind \<^verbatim>\<open>Response.json()\<close> does
  with its text:
  \<^item> \<open>Malformed msg\<close>: the text is not well-formed JSON and the decoder says so, with
    the message \<open>msg\<close>;
  \<^item> \<open>Json v\<close>: the text is well-formed and the decoder returns the value \<open>v\<close>;
  \<^item> \<open>Undecodable doc cls msg\<close>: the decoder gives up with an exception of another
    class \<open>cls\<close>. CPython raises \<^verbatim>\<open>RecursionError\<close> when arrays or objects are nested
    deeper than the recursion limit of the interpreter allows, and \<^verbatim>\<open>ValueError\<close> for an
    integer of more digits than its limit for the conversion of integers (4300 by
    default). It does so on well-formed text, where \<open>doc\<close> is the value the text
    denotes, and on text that is not well-formed, where \<open>doc\<close> is \<open>None\<close>.
  Which of the three a given text meets is up to the decoder and its limits, which belong
  to the interpreter and are no part of the script.
\<close>

datatype content = Malformed string | Json pyval | Undecodable "pyval option" string string


text \<open>
  A \<^verbatim>\<open>requests.Response\<close>: the status code, the reason phrase and the final URL (the
  three go into the message of \<^verbatim>\<open>raise_for_status\<close>), and the body.
\<close>

record response =
  status_code :: int
  reason :: string
  resp_url :: string
  body :: content

text \<open>
  \<^verbatim>\<open>Response.raise_for_status()\<close> (requests, \<^verbatim>\<open>models.py\<close>):
  \<^verbatim>\<open>
    http_error_msg = ""
    if 400 <= self.status_code < 500:
        http_error_msg = f"{self.status_code} Client Error: {reason} for url: {self.url}"
    elif 500 <= self.status_code < 600:
        http_error_msg = f"{self.status_code} Server Error: {reason} for url: {self.url}"
    if http_error_msg:
        raise HTTPError(http_error_msg, response=self)
  \<close>
\<close>

definition http_error_msg :: "response \<Rightarrow> string" where
  "http_error_msg r =
     (if 400 \<le> status_code r \<and> status_code r < 500
      then str_int (status_code r) @ '' Client Error: '' @ reason r @ '' for url: '' @ resp_url r
      else if 500 \<le> status_code r \<and> status_code r < 600
      then str_int (status_code r) @ '' Server Error: '' @ reason r @ '' for url: '' @ resp_url r
      else '''')"

definition raise_for_status :: "response \<Rightarrow> pyexc + unit" where
  "raise_for_status r =
     (if http_error_msg r \<noteq> '''' then Inl (RequestError ''HTTPError'' (http_error_msg r))
      else Inr ())"

text \<open>
  \<^verbatim>\<open>Response.json()\<close>. Since requests 2.27 a body that does not parse raises
  \<^verbatim>\<open>requests.exceptions.JSONDecodeError\<close>, declared as
  \<^verbatim>\<open>class JSONDecodeError(InvalidJSONError, CompatJSONDecodeError)\<close> with
  \<^verbatim>\<open>class InvalidJSONError(RequestException)\<close>: it is a \<^verbatim>\<open>RequestException\<close>. The
  script pins no version (\<^verbatim>\<open>pip install requests\<close>). The method catches the decode
  error of the decoder and nothing else: any other exception of the decoder leaves it as
  it was raised, and is no \<^verbatim>\<open>RequestException\<close>.
\<close>

definition response_json :: "response \<Rightarrow> pyexc + pyval" where
  "response_json r =
     (case body r of
        Malformed msg \<Rightarrow> Inl (RequestError ''JSONDecodeError'' msg)
      | Json v \<Rightarrow> Inr v
      | Undecodable doc cls msg \<Rightarrow> Inl (OtherError cls msg))"

text \<open>
  The network and the server are the environment of the script. \<^verbatim>\<open>requests.post\<close>
  takes a request and the state of the world; it raises or returns a response, and
  leaves the world in a new state.
\<close>

type_synonym 'w transport = "request \<Rightarrow> 'w \<Rightarrow> (pyexc + response) \<times> 'w"

section \<open>The script\<close>

definition SERVER_URL :: string where
  "SERVER_URL = ''http://localhost:8080/completion''"

text \<open>
  The body of the \<^verbatim>\<open>try\<close> block of \<^verbatim>\<open>ask_ai\<close>, after \<^verbatim>\<open>requests.post\<close> has raised
  or returned:
  \<^verbatim>\<open>
        response.raise_for_status()
        data = response.json()
        if data.get('error'):
            raise Exception(data['error'])
        return data['response']
  \<close>
  A parsed body that is not a dictionary has no method \<^verbatim>\<open>get\<close>.
\<close>

definition ask_ai_try :: "pyexc + response \<Rightarrow> pyexc + pyval" where
  "ask_ai_try posted =
     (case posted of
        Inl e \<Rightarrow> Inl e
      | Inr response \<Rightarrow>
          (case raise_for_status response of
             Inl e \<Rightarrow> Inl e
           | Inr u \<Rightarrow>
               (case response_json response of
                  Inl e \<Rightarrow> Inl e
                | Inr data \<Rightarrow>
                    (case data of
                       PDict d \<Rightarrow>
                         if truthy (dict_get d ''error'')
                         then (case dict_getitem d ''error'' of
                                 Inl e \<Rightarrow> Inl e
                               | Inr v \<Rightarrow> Inl (Exception v))
                         else dict_getitem d ''response''
                     | other \<Rightarrow>
                         Inl (AttributeError
                           ([CHR 0x27] @ type_name data @ [CHR 0x27] @
                            '' object has no attribute '' @ [CHR 0x27] @ ''get'' @ [CHR 0x27]))))))"

text \<open>
  The handler of \<^verbatim>\<open>ask_ai\<close>:
  \<^verbatim>\<open>
    except requests.exceptions.RequestException as e:
        raise Exception(f"Failed to connect to AI server: {e}")
  \<close>
  Every other exception passes through it unchanged.
\<close>

fun ask_ai_except :: "pyexc + pyval \<Rightarrow> pyexc + pyval" where
  "ask_ai_except (Inl (RequestError cls msg)) =
     Inl (Exception (PStr (''Failed to connect to AI server: '' @ msg)))"
| "ask_ai_except res = res"

text \<open>
  \<^verbatim>\<open>ask_ai(prompt, system_prompt=None, temperature=None, max_tokens=None)\<close>: the
  payload with its four keys, the dictionary comprehension that drops the \<^verbatim>\<open>None\<close>
  values, the POST, and the \<^verbatim>\<open>try\<close> block with its handler.
\<close>

definition ask_ai ::
  "'w transport \<Rightarrow> string \<Rightarrow> string option \<Rightarrow> 64 word option \<Rightarrow> int option \<Rightarrow> 'w
     \<Rightarrow> (pyexc + pyval) \<times> 'w" where
  "ask_ai post prompt system_prompt temperature max_tokens w =
     (let payload = [(''prompt'', PStr prompt),
                     (''systemPrompt'', optional PStr system_prompt),
                     (''temperature'', optional PFloat temperature),
                     (''maxTokens'', optional PInt max_tokens)];
          payload = filter (\<lambda>(k, v). v \<noteq> PNone) payload;
          (posted, w') = post \<lparr>url = SERVER_URL,
                                headers = Some [(''Content-Type'', ''application/json'')],
                                json = payload,
                                timeout = 30\<rparr> w
      in (ask_ai_except (ask_ai_try posted), w'))"

text \<open>
  \<^verbatim>\<open>example7_error_handling()\<close>: a POST to the wrong port with a timeout of one
  second, and the \<^verbatim>\<open>except\<close> clause that prints the class of a
  \<^verbatim>\<open>RequestException\<close>. The result is the lines printed (the check mark is its three
  bytes in UTF-8) and the exception that escapes, if one does.
\<close>

definition example7_error_handling ::
  "'w transport \<Rightarrow> 'w \<Rightarrow> (string list \<times> pyexc option) \<times> 'w" where
  "example7_error_handling post w =
     (let out = [''Example 7: Error Handling'', replicate 40 CHR ''='', ''''];
          wrong_url = ''http://localhost:9999/completion'';
          (posted, w') = post \<lparr>url = wrong_url,
                                headers = None,
                                json = [(''prompt'', PStr ''Hello'')],
                                timeout = 1\<rparr> w
      in case posted of
           Inr response \<Rightarrow> ((out @ [''''], None), w')
         | Inl (RequestError cls msg) \<Rightarrow>
             ((out @ [''Caught expected error: '' @ cls,
                      ''This demonstrates proper error handling '' @
                        [CHR 0xE2, CHR 0x9C, CHR 0x93],
                      ''''], None), w')
         | Inl e \<Rightarrow> ((out, Some e), w'))"

section \<open>Test doubles\<close>

text \<open>
  A mock server that gives the same answer to every request and has no state of its
  own, and a wrapper that keeps a log of the requests passed to \<^verbatim>\<open>requests.post\<close>,
  in order, beside the state of the transport it wraps.
\<close>

definition mock :: "pyexc + response \<Rightarrow> 'w transport" where
  "mock answer req w = (answer, w)"

definition logging :: "'w transport \<Rightarrow> ('w \<times> request list) transport" where
  "logging post req wl =
     (case wl of (w, log) \<Rightarrow>
        (case post req w of (posted, w') \<Rightarrow> (posted, (w', log @ [req]))))"

text \<open>A response of the server at \<^verbatim>\<open>SERVER_URL\<close>, given its status line and its body.\<close>

definition reply :: "int \<Rightarrow> string \<Rightarrow> content \<Rightarrow> response" where
  "reply code phrase b =
     \<lparr>status_code = code, reason = phrase, resp_url = SERVER_URL, body = b\<rparr>"

text \<open>
  A server with a state: it counts the requests it has served, and answers each one with
  the prompt of its payload, a function of the request alone.
\<close>

definition counting :: "nat transport" where
  "counting req n = (Inr (reply 200 ''OK'' (Json (PDict [(''response'',
                       dict_get (json req) ''prompt'')]))), Suc n)"


section \<open>Auxiliary facts\<close>

lemma http_error_msg_empty:
  "status_code r < 400 \<or> 600 \<le> status_code r \<Longrightarrow> http_error_msg r = ''''"
  by (auto simp: http_error_msg_def)

lemma http_error_msg_nonempty:
  "400 \<le> status_code r \<Longrightarrow> status_code r < 600 \<Longrightarrow> http_error_msg r \<noteq> ''''"
  by (simp add: http_error_msg_def)

lemma raise_for_status_passes:
  "status_code r < 400 \<or> 600 \<le> status_code r \<Longrightarrow> raise_for_status r = Inr ()"
  by (simp add: raise_for_status_def http_error_msg_empty)

lemma raise_for_status_raises:
  "400 \<le> status_code r \<Longrightarrow> status_code r < 600 \<Longrightarrow>
   raise_for_status r = Inl (RequestError ''HTTPError'' (http_error_msg r))"
  by (simp add: raise_for_status_def http_error_msg_nonempty)

text \<open>
  \<^verbatim>\<open>ask_ai\<close> calls \<^verbatim>\<open>requests.post\<close> once: its result is the \<^verbatim>\<open>try\<close> block and
  the handler applied to what that call gave.
\<close>

lemma ask_ai_answer:
  assumes "\<And>req. fst (post req w) = posted"
  shows "fst (ask_ai post prompt system_prompt temperature max_tokens w) =
           ask_ai_except (ask_ai_try posted)"
  unfolding ask_ai_def Let_def case_prod_beta by (simp only: fst_conv assms)

text \<open>
  When the status check passes and \<^verbatim>\<open>response.json()\<close> raises, the handler decides:
  a \<^verbatim>\<open>RequestException\<close> is wrapped, any other exception leaves \<^verbatim>\<open>ask_ai\<close> as it
  was raised.
\<close>

lemma ask_ai_decoder_failure:
  assumes "\<And>req. fst (post req w) = Inr r"
    and "status_code r < 400 \<or> 600 \<le> status_code r"
    and "response_json r = Inl e"
  shows "fst (ask_ai post prompt system_prompt temperature max_tokens w) =
           ask_ai_except (Inl e)"
proof -
  have "ask_ai_try (Inr r) = Inl e"
    using assms(2,3) by (simp add: ask_ai_try_def raise_for_status_passes)
  then show ?thesis
    by (simp add: ask_ai_answer [where post = post and w = w and posted = "Inr r", OF assms(1)])
qed

lemma fst_mock: "fst (mock answer req w) = answer"
  by (simp add: mock_def)

lemma ask_ai_sends:
  "snd (snd (ask_ai (logging post) prompt system_prompt temperature max_tokens (w, log))) =
     log @ [\<lparr>url = SERVER_URL,
              headers = Some [(''Content-Type'', ''application/json'')],
              json = filter (\<lambda>(k, v). v \<noteq> PNone)
                       [(''prompt'', PStr prompt),
                        (''systemPrompt'', optional PStr system_prompt),
                        (''temperature'', optional PFloat temperature),
                        (''maxTokens'', optional PInt max_tokens)],
              timeout = 30\<rparr>]"
  unfolding ask_ai_def logging_def Let_def case_prod_beta by (simp only: fst_conv snd_conv)

lemma ask_ai_logging_answer:
  "fst (ask_ai (logging post) prompt system_prompt temperature max_tokens (w, log)) =
     fst (ask_ai post prompt system_prompt temperature max_tokens w)"
  unfolding ask_ai_def logging_def Let_def case_prod_beta by (simp only: fst_conv snd_conv)

lemma ask_ai_deterministic:
  assumes "\<And>req w1 w2. fst (post req w1) = fst (post req w2)"
  shows "fst (ask_ai post prompt system_prompt temperature max_tokens w1) =
         fst (ask_ai post prompt system_prompt temperature max_tokens w2)"
  unfolding ask_ai_def Let_def case_prod_beta fst_conv
  using assms by metis

lemmas evaluate =
  ask_ai_def ask_ai_try_def raise_for_status_def http_error_msg_def response_json_def
  dict_get_def dict_getitem_def mock_def reply_def SERVER_URL_def

section \<open>The request payload\<close>

text \<open>
  C1. For every combination of the optional parameters \<^verbatim>\<open>system_prompt\<close>,
  \<^verbatim>\<open>temperature\<close> and \<^verbatim>\<open>max_tokens\<close>, the payload that \<^verbatim>\<open>ask_ai\<close> passes to
  \<^verbatim>\<open>requests.post\<close> holds the key \<^verbatim>\<open>prompt\<close> and one key for each optional
  parameter that was supplied, in the order of the source, each key once, and no value
  of it is \<^verbatim>\<open>None\<close>. With \<^verbatim>\<open>max_tokens\<close> left out the payload is the one a
  dictionary without the key \<^verbatim>\<open>maxTokens\<close> would have given.
\<close>

theorem ask_ai_payload:
  "(\<exists>payload.
      map json (snd (snd (ask_ai (logging post) prompt system_prompt temperature max_tokens
                            (w, [])))) = [payload]
      \<and> payload =
          (''prompt'', PStr prompt) #
          (case system_prompt of None \<Rightarrow> [] | Some s \<Rightarrow> [(''systemPrompt'', PStr s)]) @
          (case temperature of None \<Rightarrow> [] | Some x \<Rightarrow> [(''temperature'', PFloat x)]) @
          (case max_tokens of None \<Rightarrow> [] | Some n \<Rightarrow> [(''maxTokens'', PInt n)])
      \<and> fst ` set payload =
          {''prompt''} \<union> (if system_prompt = None then {} else {''systemPrompt''})
                       \<union> (if temperature = None then {} else {''temperature''})
                       \<union> (if max_tokens = None then {} else {''maxTokens''})
      \<and> distinct (map fst payload)
      \<and> PNone \<notin> snd ` set payload)
   \<and> map json (snd (snd (ask_ai (logging post) prompt system_prompt temperature None
                            (w, [])))) =
       [filter (\<lambda>(k, v). v \<noteq> PNone)
          [(''prompt'', PStr prompt),
           (''systemPrompt'', optional PStr system_prompt),
           (''temperature'', optional PFloat temperature)]]"
  unfolding ask_ai_sends
  by (cases system_prompt; cases temperature; cases max_tokens) auto

section \<open>Answers of the server\<close>

text \<open>
  C2. If the server answers with a status that passes \<^verbatim>\<open>raise_for_status\<close> (HTTP 200
  is one) and \<^verbatim>\<open>response.json()\<close> returns an object with no \<^verbatim>\<open>error\<close> field whose
  \<^verbatim>\<open>response\<close> field is \<open>x\<close>, as it does for the body \<^verbatim>\<open>{"response": "X"}\<close>,
  then \<^verbatim>\<open>ask_ai\<close> returns \<open>x\<close>, whatever the prompt and the optional parameters.
  The statement rests on what the decoder returns, not on the text of the body.
\<close>

theorem ask_ai_returns_response:
  assumes "\<And>req. fst (post req w) = Inr r"
    and "status_code r < 400 \<or> 600 \<le> status_code r"
    and "response_json r = Inr (PDict d)"
    and "map_of d ''error'' = None"
    and "map_of d ''response'' = Some x"
  shows "fst (ask_ai post prompt system_prompt temperature max_tokens w) = Inr x"
proof -
  have "ask_ai_try (Inr r) = Inr x"
    using assms(2-5)
    by (simp add: ask_ai_try_def raise_for_status_passes dict_get_def dict_getitem_def)
  then show ?thesis
    by (simp add: ask_ai_answer [where post = post and w = w and posted = "Inr r", OF assms(1)])
qed

theorem ask_ai_returns_response_witness:
  "status_code (reply 200 ''OK'' (Json (PDict [(''response'', PStr ''X'')]))) = 200
   \<and> fst (ask_ai (mock (Inr (reply 200 ''OK'' (Json (PDict [(''response'', PStr ''X'')])))))
             ''What is the capital of France?'' None None None ()) = Inr (PStr ''X'')"
proof -
  let ?r = "reply 200 ''OK'' (Json (PDict [(''response'', PStr ''X'')]))"
  have posted: "\<And>req. fst (mock (Inr ?r) req ()) = Inr ?r"
    by (rule fst_mock)
  have status: "status_code ?r < 400 \<or> 600 \<le> status_code ?r"
    by (simp add: reply_def)
  have parsed: "response_json ?r = Inr (PDict [(''response'', PStr ''X'')])"
    by (simp add: response_json_def reply_def)
  have "fst (ask_ai (mock (Inr ?r)) ''What is the capital of France?'' None None None ()) =
          Inr (PStr ''X'')"
    using ask_ai_returns_response
      [where post = "mock (Inr ?r)" and w = "()" and r = ?r
         and d = "[(''response'', PStr ''X'')]" and x = "PStr ''X''", OF posted status parsed]
    by simp
  then show ?thesis
    by (simp add: reply_def)
qed







section \<open>Failures\<close>

text \<open>
  C6. If \<^verbatim>\<open>requests.post\<close> fails at the level of the transport, that is raises an
  instance of \<^verbatim>\<open>RequestException\<close> (connection refused and DNS failure raise
  \<^verbatim>\<open>ConnectionError\<close>, a timeout raises \<^verbatim>\<open>Timeout\<close>), then \<^verbatim>\<open>ask_ai\<close> fails with
  a plain \<^verbatim>\<open>Exception\<close> whose message is the text of the underlying exception after
  the prefix \<^verbatim>\<open>Failed to connect to AI server: \<close>.
\<close>

theorem ask_ai_transport_failure:
  assumes "\<And>req. fst (post req w) = Inl (RequestError cls msg)"
  shows "fst (ask_ai post prompt system_prompt temperature max_tokens w) =
           Inl (Exception (PStr (''Failed to connect to AI server: '' @ msg)))"
  by (simp add: ask_ai_answer [where post = post and w = w, OF assms] ask_ai_try_def)

theorem ask_ai_transport_failure_witness:
  "fst (ask_ai (mock (Inl (RequestError ''ConnectionError'' ''Connection refused'')))
          ''Hello'' None None None ()) =
     Inl (Exception (PStr ''Failed to connect to AI server: Connection refused''))"
proof -
  have posted: "\<And>req. fst (mock (Inl (RequestError ''ConnectionError'' ''Connection refused''))
                            req ()) =
                  Inl (RequestError ''ConnectionError'' ''Connection refused'')"
    by (rule fst_mock)
  show ?thesis
    using ask_ai_transport_failure
      [where post = "mock (Inl (RequestError ''ConnectionError'' ''Connection refused''))"
         and w = "()" and cls = "''ConnectionError''" and msg = "''Connection refused''",
       OF posted]
    by simp
qed

text \<open>
  C5, as amended. If the server answers with a status from 400 to 599, the statuses
  \<^verbatim>\<open>raise_for_status\<close> raises for, then \<^verbatim>\<open>ask_ai\<close> fails whatever the body is: the
  failure is the \<^verbatim>\<open>HTTPError\<close> of the status check, wrapped by the handler, and its
  message is built from the status code, the reason phrase and the URL alone. The body is
  not parsed. A status outside 200 to 299 that is also outside 400 to 599 passes the check,
  and the body is then handled as for a success status.
\<close>

theorem ask_ai_http_error:
  assumes "\<And>req. fst (post req w) = Inr r"
    and "400 \<le> status_code r"
    and "status_code r < 600"
  shows "fst (ask_ai post prompt system_prompt temperature max_tokens w) =
           Inl (Exception (PStr (''Failed to connect to AI server: '' @
                  str_int (status_code r) @
                  (if status_code r < 500 then '' Client Error: '' else '' Server Error: '') @
                  reason r @ '' for url: '' @ resp_url r)))"
proof -
  have "ask_ai_try (Inr r) = Inl (RequestError ''HTTPError'' (http_error_msg r))"
    using assms(2,3) by (simp add: ask_ai_try_def raise_for_status_raises)
  moreover have "http_error_msg r = str_int (status_code r) @
                  (if status_code r < 500 then '' Client Error: '' else '' Server Error: '') @
                  reason r @ '' for url: '' @ resp_url r"
    using assms(2,3) by (simp add: http_error_msg_def)
  ultimately show ?thesis
    by (simp add: ask_ai_answer [where post = post and w = w and posted = "Inr r", OF assms(1)])
qed

theorem ask_ai_http_error_witness:
  "fst (ask_ai (mock (Inr (reply 500 ''Internal Server Error''
                             (Json (PDict [(''response'', PStr ''X'')])))))
          ''Hello'' None None None ()) =
     Inl (Exception (PStr (''Failed to connect to AI server: 500 Server Error: '' @
            ''Internal Server Error for url: http://localhost:8080/completion'')))"
proof -
  let ?r = "reply 500 ''Internal Server Error'' (Json (PDict [(''response'', PStr ''X'')]))"
  have posted: "\<And>req. fst (mock (Inr ?r) req ()) = Inr ?r"
    by (rule fst_mock)
  have lower: "400 \<le> status_code ?r" and upper: "status_code ?r < 600"
    by (simp_all add: reply_def)
  have digits: "str_int 500 = ''500''"
    by (simp add: str_int_def str_nat.simps digit_def)
  show ?thesis
    using ask_ai_http_error
      [where post = "mock (Inr ?r)" and w = "()" and r = ?r, OF posted lower upper]
    by (simp add: reply_def SERVER_URL_def digits)
qed

text \<open>
  The claim C5 speaks of every status outside 200 to 299. A 300 answer with a body is
  such a status, \<^verbatim>\<open>raise_for_status\<close> lets it pass, and \<^verbatim>\<open>ask_ai\<close> returns the
  \<^verbatim>\<open>response\<close> field of its body.
\<close>

theorem ask_ai_status_300_counterexample:
  "\<not> (200 \<le> status_code (reply 300 ''Multiple Choices''
                              (Json (PDict [(''response'', PStr ''X'')])))
       \<and> status_code (reply 300 ''Multiple Choices''
                              (Json (PDict [(''response'', PStr ''X'')]))) < 300)
   \<and> fst (ask_ai (mock (Inr (reply 300 ''Multiple Choices''
                                (Json (PDict [(''response'', PStr ''X'')])))))
             ''Hello'' None None None ()) = Inr (PStr ''X'')"
  by (simp add: evaluate)

text \<open>
  C7, as amended. If the server answers with a status that passes \<^verbatim>\<open>raise_for_status\<close>
  and a body on which \<^verbatim>\<open>response.json()\<close> raises its
  \<^verbatim>\<open>requests.exceptions.JSONDecodeError\<close>, as it does when the decoder finds the text
  not to be well-formed JSON, then the handler of \<^verbatim>\<open>ask_ai\<close> catches that error, a
  \<^verbatim>\<open>RequestException\<close>, and \<^verbatim>\<open>ask_ai\<close> fails with a plain \<^verbatim>\<open>Exception\<close> whose
  message is the decoder's message after the prefix
  \<^verbatim>\<open>Failed to connect to AI server: \<close>. Nothing is said of a body on which the
  decoder raises an exception of another class.
\<close>

theorem ask_ai_malformed_json:
  assumes "\<And>req. fst (post req w) = Inr r"
    and "status_code r < 400 \<or> 600 \<le> status_code r"
    and "response_json r = Inl (RequestError ''JSONDecodeError'' msg)"
  shows "fst (ask_ai post prompt system_prompt temperature max_tokens w) =
           Inl (Exception (PStr (''Failed to connect to AI server: '' @ msg)))"
proof -
  have "ask_ai_try (Inr r) = Inl (RequestError ''JSONDecodeError'' msg)"
    using assms(2,3) by (simp add: ask_ai_try_def raise_for_status_passes)
  then show ?thesis
    by (simp add: ask_ai_answer [where post = post and w = w and posted = "Inr r", OF assms(1)])
qed

theorem ask_ai_malformed_json_witness:
  "fst (ask_ai (mock (Inr (reply 201 ''Created''
                             (Malformed ''Extra data: line 1 column 3 (char 2)''))))
          ''Hello'' None None (Some 50) ()) =
     Inl (Exception (PStr
            ''Failed to connect to AI server: Extra data: line 1 column 3 (char 2)''))"
proof -
  let ?r = "reply 201 ''Created'' (Malformed ''Extra data: line 1 column 3 (char 2)'')"
  have posted: "\<And>req. fst (mock (Inr ?r) req ()) = Inr ?r"
    by (rule fst_mock)
  have status: "status_code ?r < 400 \<or> 600 \<le> status_code ?r"
    by (simp add: reply_def)
  have unparsed: "response_json ?r =
                    Inl (RequestError ''JSONDecodeError'' ''Extra data: line 1 column 3 (char 2)'')"
    by (simp add: response_json_def reply_def)
  show ?thesis
    using ask_ai_malformed_json
      [where post = "mock (Inr ?r)" and w = "()" and r = ?r
         and msg = "''Extra data: line 1 column 3 (char 2)''", OF posted status unparsed]
    by simp
qed

text \<open>
  The claim C7 has the parse error leave \<^verbatim>\<open>ask_ai\<close> as it was raised. For an HTTP 200
  answer with an empty body the parse error is not what \<^verbatim>\<open>ask_ai\<close> fails with: the
  failure is the wrapped one, with the message of a transport error.
\<close>

theorem ask_ai_malformed_json_counterexample:
  "response_json (reply 200 ''OK'' (Malformed ''Expecting value: line 1 column 1 (char 0)'')) =
     Inl (RequestError ''JSONDecodeError'' ''Expecting value: line 1 column 1 (char 0)'')
   \<and> fst (ask_ai (mock (Inr (reply 200 ''OK''
                                (Malformed ''Expecting value: line 1 column 1 (char 0)''))))
             ''Hello'' None None None ()) \<noteq>
       Inl (RequestError ''JSONDecodeError'' ''Expecting value: line 1 column 1 (char 0)'')
   \<and> fst (ask_ai (mock (Inr (reply 200 ''OK''
                                (Malformed ''Expecting value: line 1 column 1 (char 0)''))))
             ''Hello'' None None None ()) =
       Inl (Exception (PStr
              ''Failed to connect to AI server: Expecting value: line 1 column 1 (char 0)''))"
  by (simp add: evaluate)

text \<open>
  C4, as amended. For an answer from whose body \<^verbatim>\<open>response.json()\<close> returns an object
  with an \<^verbatim>\<open>error\<close> field, \<^verbatim>\<open>ask_ai\<close> fails exactly when the status is one
  \<^verbatim>\<open>raise_for_status\<close> raises for (400 to 599), or the value of the field passes
  Python's truth test, or the object has no \<^verbatim>\<open>response\<close> key. So a field with a
  true value makes the call fail at every status; a field whose value is the empty string,
  \<^verbatim>\<open>null\<close>, zero, \<^verbatim>\<open>false\<close> or an empty list or object counts as absent. The
  statement rests on what the decoder returns, not on the text of the body.
\<close>

theorem ask_ai_error_field_failure:
  assumes "\<And>req. fst (post req w) = Inr r"
    and "response_json r = Inr (PDict d)"
    and "map_of d ''error'' = Some v"
  shows "isl (fst (ask_ai post prompt system_prompt temperature max_tokens w)) \<longleftrightarrow>
           (400 \<le> status_code r \<and> status_code r < 600) \<or> truthy v \<or>
           map_of d ''response'' = None"
proof (cases "400 \<le> status_code r \<and> status_code r < 600")
  case True
  then have "ask_ai_try (Inr r) = Inl (RequestError ''HTTPError'' (http_error_msg r))"
    by (simp add: ask_ai_try_def raise_for_status_raises)
  with True show ?thesis
    by (simp add: ask_ai_answer [where post = post and w = w and posted = "Inr r", OF assms(1)])
next
  case False
  then have pass: "raise_for_status r = Inr ()"
    by (intro raise_for_status_passes) linarith
  have "ask_ai_try (Inr r) =
          (if truthy v then Inl (Exception v) else dict_getitem d ''response'')"
    using assms(2,3) pass
    by (simp add: ask_ai_try_def dict_get_def dict_getitem_def)
  with False show ?thesis
    by (cases "map_of d ''response''")
       (simp_all add: dict_getitem_def
          ask_ai_answer [where post = post and w = w and posted = "Inr r", OF assms(1)])
qed

theorem ask_ai_error_field_failure_witness:
  "map_of [(''response'', PStr ''X''), (''error'', PNone)] ''error'' = Some PNone
   \<and> \<not> isl (fst (ask_ai (mock (Inr (reply 200 ''OK''
                    (Json (PDict [(''response'', PStr ''X''), (''error'', PNone)])))))
                  ''Hello'' None None None ()))"
proof -
  let ?d = "[(''response'', PStr ''X''), (''error'', PNone)]"
  let ?r = "reply 200 ''OK'' (Json (PDict ?d))"
  have posted: "\<And>req. fst (mock (Inr ?r) req ()) = Inr ?r"
    by (rule fst_mock)
  have parsed: "response_json ?r = Inr (PDict ?d)"
    by (simp add: response_json_def reply_def)
  have field: "map_of ?d ''error'' = Some PNone"
    by simp
  have "isl (fst (ask_ai (mock (Inr ?r)) ''Hello'' None None None ())) \<longleftrightarrow>
          (400 \<le> status_code ?r \<and> status_code ?r < 600) \<or> truthy PNone \<or>
          map_of ?d ''response'' = None"
    by (rule ask_ai_error_field_failure
      [where post = "mock (Inr ?r)" and w = "()" and r = ?r and d = ?d and v = PNone,
       OF posted parsed field])
  then have "\<not> isl (fst (ask_ai (mock (Inr ?r)) ''Hello'' None None None ()))"
    by (simp add: reply_def)
  with field show ?thesis
    by simp
qed

text \<open>
  The claim C4 has the mere presence of the field make the call fail, the empty string
  included. An HTTP 200 answer with the body
  \<^verbatim>\<open>{"error": "", "response": "X"}\<close> has the field, and \<^verbatim>\<open>ask_ai\<close> returns
  \<^verbatim>\<open>"X"\<close>.
\<close>

theorem ask_ai_empty_error_counterexample:
  "map_of [(''error'', PStr ''''), (''response'', PStr ''X'')] ''error'' = Some (PStr '''')
   \<and> fst (ask_ai (mock (Inr (reply 200 ''OK''
                    (Json (PDict [(''error'', PStr ''''), (''response'', PStr ''X'')])))))
             ''Hello'' None None None ()) = Inr (PStr ''X'')"
  by (simp add: evaluate)

section \<open>Sequential calls\<close>

text \<open>
  C8. Let the answer of the transport depend on the request alone, not on the state of the
  world. Then two calls of \<^verbatim>\<open>ask_ai\<close> one after the other with the same arguments
  (example 5 passes the same prompt and \<^verbatim>\<open>temperature=0.0\<close> twice) give the same
  result, and the two requests sent are the same request: the client adds nothing of its
  own that could differ between the runs.
\<close>

theorem two_calls_identical:
  assumes "\<And>req w1 w2. fst (post req w1) = fst (post req w2)"
  shows "(case ask_ai (logging post) prompt system_prompt temperature max_tokens (w, []) of
            (answer1, wl1) \<Rightarrow>
              (case ask_ai (logging post) prompt system_prompt temperature max_tokens wl1 of
                 (answer2, wl2) \<Rightarrow> answer1 = answer2 \<and> (\<exists>req. snd wl2 = [req, req])))"
proof -
  obtain answer1 w1 log1 where
    one: "ask_ai (logging post) prompt system_prompt temperature max_tokens (w, []) =
            (answer1, (w1, log1))"
    by (metis surj_pair)
  obtain answer2 w2 log2 where
    two: "ask_ai (logging post) prompt system_prompt temperature max_tokens (w1, log1) =
            (answer2, (w2, log2))"
    by (metis surj_pair)
  have "answer1 = fst (ask_ai post prompt system_prompt temperature max_tokens w)"
    using one ask_ai_logging_answer [of post prompt system_prompt temperature max_tokens w "[]"]
    by simp
  moreover have "answer2 = fst (ask_ai post prompt system_prompt temperature max_tokens w1)"
    using two ask_ai_logging_answer [of post prompt system_prompt temperature max_tokens w1 log1]
    by simp
  ultimately have same: "answer1 = answer2"
    using ask_ai_deterministic [of post, OF assms] by simp
  have "log1 = [] @ [\<lparr>url = SERVER_URL,
              headers = Some [(''Content-Type'', ''application/json'')],
              json = filter (\<lambda>(k, v). v \<noteq> PNone)
                       [(''prompt'', PStr prompt),
                        (''systemPrompt'', optional PStr system_prompt),
                        (''temperature'', optional PFloat temperature),
                        (''maxTokens'', optional PInt max_tokens)],
              timeout = 30\<rparr>]"
    using one ask_ai_sends [of post prompt system_prompt temperature max_tokens w "[]"]
    by simp
  moreover have "log2 = log1 @ [\<lparr>url = SERVER_URL,
              headers = Some [(''Content-Type'', ''application/json'')],
              json = filter (\<lambda>(k, v). v \<noteq> PNone)
                       [(''prompt'', PStr prompt),
                        (''systemPrompt'', optional PStr system_prompt),
                        (''temperature'', optional PFloat temperature),
                        (''maxTokens'', optional PInt max_tokens)],
              timeout = 30\<rparr>]"
    using two ask_ai_sends [of post prompt system_prompt temperature max_tokens w1 log1]
    by simp
  ultimately have "\<exists>req. log2 = [req, req]"
    by simp
  with same show ?thesis
    by (simp add: one two)
qed

text \<open>
  The instance of example 5, against a transport with a state: it counts the requests it
  has served, and answers by the prompt alone.
\<close>

theorem two_calls_identical_witness:
  "(\<forall>req w1 w2. fst (counting req w1) = fst (counting req w2))
   \<and> (case ask_ai (logging counting) ''List the first 3 programming paradigms''
              None (Some 0) None (0, []) of
         (answer1, wl1) \<Rightarrow>
           (case ask_ai (logging counting) ''List the first 3 programming paradigms''
                   None (Some 0) None wl1 of
              (answer2, wl2) \<Rightarrow> answer1 = answer2 \<and> (\<exists>req. snd wl2 = [req, req])))"
proof -
  have answers: "\<And>req w1 w2. fst (counting req w1) = fst (counting req w2)"
    by (simp add: counting_def)
  show ?thesis
    using answers
      two_calls_identical
        [where post = counting and w = 0
           and prompt = "''List the first 3 programming paradigms''"
           and system_prompt = None and temperature = "Some 0" and max_tokens = None,
         OF answers]
    by simp
qed

section \<open>Timeouts\<close>

text \<open>
  C9. Whatever its arguments, \<^verbatim>\<open>ask_ai\<close> sends one POST, to
  \<^verbatim>\<open>http://localhost:8080/completion\<close> and with a timeout of 30. The error-handling
  example sends one POST with a timeout of 1 to port 9999 of the same host, where no
  server listens.
\<close>

theorem ask_ai_timeout:
  "map timeout (snd (snd (ask_ai (logging post) prompt system_prompt temperature max_tokens
                            (w, log)))) = map timeout log @ [30]
   \<and> map url (snd (snd (ask_ai (logging post) prompt system_prompt temperature max_tokens
                            (w, log)))) = map url log @ [''http://localhost:8080/completion'']
   \<and> snd (snd (example7_error_handling (logging post) (w, log))) =
       log @ [\<lparr>url = ''http://localhost:9999/completion'',
                headers = None,
                json = [(''prompt'', PStr ''Hello'')],
                timeout = 1\<rparr>]"
proof -
  have "snd (snd (example7_error_handling (logging post) (w, log))) =
       log @ [\<lparr>url = ''http://localhost:9999/completion'',
                headers = None,
                json = [(''prompt'', PStr ''Hello'')],
                timeout = 1\<rparr>]"
    unfolding example7_error_handling_def logging_def Let_def case_prod_beta
    by (simp split: sum.splits pyexc.splits)
  then show ?thesis
    unfolding ask_ai_sends by (simp add: SERVER_URL_def)
qed

end
